theory Spec2Isabelle
  imports Main "HOL-Library.AList"
begin

section \<open>Python values and string operations used by the sources\<close>

text \<open>
  The option values that reach \<open>get_command_list\<close>: \<open>None\<close>, booleans, integers and
  strings, lists of those and dictionaries from strings to those. Strings are ASCII.
\<close>

datatype py_atom = PyNone | PyBool bool | PyInt int | PyStr string

datatype py_value = Atom py_atom | PyList "py_atom list" | PyDict "(string \<times> py_atom) list"

text \<open>Decimal digits of a natural number, as Python's \<open>str\<close> prints an \<open>int\<close>.\<close>

function str_nat :: "nat \<Rightarrow> string" where
  "str_nat n =
     (if n < 10 then [''0123456789'' ! n]
      else str_nat (n div 10) @ [''0123456789'' ! (n mod 10)])"
  by pat_completeness auto
termination
  by (relation "measure (\<lambda>n. n)") auto

declare str_nat.simps [simp del]

definition str_int :: "int \<Rightarrow> string" where
  "str_int i = (if i < 0 then ''-'' @ str_nat (nat (- i)) else str_nat (nat i))"

text \<open>What an f-string substitutes for \<open>{v}\<close>: Python's \<open>format(v, '')\<close>, that is \<open>str(v)\<close>.\<close>

fun py_format :: "py_atom \<Rightarrow> string" where
  "py_format PyNone = ''None''"
| "py_format (PyBool b) = (if b then ''True'' else ''False'')"
| "py_format (PyInt i) = str_int i"
| "py_format (PyStr s) = s"

text \<open>
  \<open>str.isspace\<close> on an ASCII character: code points 9 to 13, 28 to 31 and 32.
\<close>

definition py_isspace :: "char \<Rightarrow> bool" where
  "py_isspace c =
     (c \<in> set [CHR 0x09, CHR 0x0A, CHR 0x0B, CHR 0x0C, CHR 0x0D,
                CHR 0x1C, CHR 0x1D, CHR 0x1E, CHR 0x1F, CHR 0x20])"

text \<open>
  \<open>command.split()\<close> with no separator: the maximal runs of characters that are not
  whitespace, in order. \<open>cur\<close> is the word read so far.
\<close>

fun split_ws :: "string \<Rightarrow> string \<Rightarrow> string list" where
  "split_ws cur [] = (if cur = [] then [] else [cur])"
| "split_ws cur (c # cs) =
     (if py_isspace c then (if cur = [] then split_ws [] cs else cur # split_ws [] cs)
      else split_ws (cur @ [c]) cs)"

definition py_split :: "string \<Rightarrow> string list" where
  "py_split s = split_ws [] s"

text \<open>\<open>key.replace("_", "-")\<close>: every underscore becomes a hyphen.\<close>

definition replace_underscore :: "string \<Rightarrow> string" where
  "replace_underscore key = map (\<lambda>c. if c = CHR ''_'' then CHR ''-'' else c) key"

text \<open>\<open>sub in s\<close> on strings: \<open>sub\<close> occurs in \<open>s\<close> as a contiguous run.\<close>

fun py_in :: "string \<Rightarrow> string \<Rightarrow> bool" where
  "py_in sub [] = (sub = [])"
| "py_in sub (c # cs) = (take (length sub) (c # cs) = sub \<or> py_in sub cs)"

section \<open>terraform\_deployment\_utils.py\<close>

subsection \<open>get\_command\_list\<close>

text \<open>
  One pass of the loop body of \<open>get_command_list\<close>: \<open>commands_list\<close> after the option
  \<open>(key, value)\<close> has been handled. The branches are tried in the order of the
  source: list, dict, bool, not None.
\<close>

fun add_option :: "string list \<Rightarrow> string \<times> py_value \<Rightarrow> string list" where
  "add_option commands_list (key0, PyList vs) =
     (let key = replace_underscore key0 in
      foldl (\<lambda>cl inner_value. cl @ [''-'' @ key @ ''='' @ py_format inner_value])
        commands_list vs)"
| "add_option commands_list (key0, PyDict d) =
     (let key = replace_underscore key0 in
      if py_in ''backend-config'' key
      then commands_list @ map (\<lambda>(k, v). ''-backend-config '' @ k @ ''='' @ py_format v) d
      else commands_list)"
| "add_option commands_list (key0, Atom (PyBool b)) =
     (let key = replace_underscore key0 in
      commands_list @ [''-'' @ key @ ''='' @ (if b then ''true'' else ''false'')])"
| "add_option commands_list (key0, Atom PyNone) = commands_list"
| "add_option commands_list (key0, Atom a) =
     (let key = replace_underscore key0 in
      commands_list @ [''-'' @ key @ ''='' @ py_format a])"

text \<open>
  \<open>kwargs\<close> is the keyword dictionary in its iteration order, \<open>args\<close> the positional
  arguments, appended last.
\<close>

definition get_command_list ::
  "string \<Rightarrow> string list \<Rightarrow> (string \<times> py_value) list \<Rightarrow> string list" where
  "get_command_list command args kwargs = foldl add_option (py_split command) kwargs @ args"

subsection \<open>The class and its constructor\<close>

record TerraformDeploymentUtils =
  state_file_path :: "string option"
  resource_targets :: "string list"
  terraform_variables :: "(string \<times> string) list"
  parallelism :: int
  var_definition_file :: "string option"
  input :: bool

definition TERRAFORM_DEFAULT_PARALLELISM :: int where
  "TERRAFORM_DEFAULT_PARALLELISM = 10"

text \<open>
  \<open>__init__\<close>: an argument the caller leaves out is \<open>None\<close> here and takes its default;
  \<open>input\<close> is always \<open>False\<close>.
\<close>

definition TerraformDeploymentUtils_init ::
  "string option \<Rightarrow> (string \<times> string) list option \<Rightarrow> int option \<Rightarrow> string list option \<Rightarrow>
   string option \<Rightarrow> TerraformDeploymentUtils" where
  "TerraformDeploymentUtils_init state_file_path' terraform_variables' parallelism'
       resource_targets' var_definition_file' =
     \<lparr> state_file_path = state_file_path',
       resource_targets = (case resource_targets' of None \<Rightarrow> [] | Some r \<Rightarrow> r),
       terraform_variables = (case terraform_variables' of None \<Rightarrow> [] | Some d \<Rightarrow> d),
       parallelism = (case parallelism' of None \<Rightarrow> TERRAFORM_DEFAULT_PARALLELISM | Some n \<Rightarrow> n),
       var_definition_file = var_definition_file',
       input = False \<rparr>"

subsection \<open>get\_default\_options\<close>

text \<open>
  The members of the enum \<open>TerraformCliOptions\<close> that \<open>get_default_options\<close> names. The
  enum and the list \<open>NOT_SUPPORTED_INIT_DEFAULT_OPTIONS\<close> are declared in
  \<open>deploy_library/models.py\<close>, outside the sources at hand: \<open>get_default_options\<close> takes
  as parameters the dictionary key \<open>key_of\<close> each member stands for and the list.
\<close>

datatype TerraformCliOptions =
  Cli_state | Cli_target | Cli_var | Cli_var_file | Cli_parallelism | Cli_terraform_input

text \<open>
  A Python dictionary keeps its keys in insertion order: an association list with
  distinct keys. \<open>d[k] = v\<close> is \<open>AList.update\<close> (the key keeps its place, or is added
  last), \<open>d.pop(k, None)\<close> is \<open>AList.delete\<close>.
\<close>

definition dict_of_items :: "('k \<times> 'v) list \<Rightarrow> ('k \<times> 'v) list" where
  "dict_of_items items = foldl (\<lambda>d (k, v). AList.update k v d) [] items"

definition py_optional_str :: "string option \<Rightarrow> py_value" where
  "py_optional_str s = (case s of None \<Rightarrow> Atom PyNone | Some x \<Rightarrow> Atom (PyStr x))"

text \<open>The dictionary display that initialises \<open>return_dict\<close>; \<open>**input_options\<close> comes last.\<close>

definition return_dict ::
  "(TerraformCliOptions \<Rightarrow> 'k) \<Rightarrow> TerraformDeploymentUtils \<Rightarrow> ('k \<times> py_value) list \<Rightarrow>
   ('k \<times> py_value) list" where
  "return_dict key_of self input_options =
     dict_of_items
       ([(key_of Cli_state, py_optional_str (state_file_path self)),
         (key_of Cli_target, PyList (map PyStr (resource_targets self))),
         (key_of Cli_var, PyDict (map (\<lambda>(k, v). (k, PyStr v)) (terraform_variables self))),
         (key_of Cli_var_file, py_optional_str (var_definition_file self)),
         (key_of Cli_parallelism, Atom (PyInt (parallelism self))),
         (key_of Cli_terraform_input, Atom (PyBool (input self)))]
        @ input_options)"

definition get_default_options ::
  "(TerraformCliOptions \<Rightarrow> 'k) \<Rightarrow> 'k list \<Rightarrow> TerraformDeploymentUtils \<Rightarrow> string \<Rightarrow>
   ('k \<times> py_value) list \<Rightarrow> ('k \<times> py_value) list" where
  "get_default_options key_of NOT_SUPPORTED_INIT_DEFAULT_OPTIONS self terraform_command
       input_options =
     (if terraform_command = ''init''
      then foldl (\<lambda>d default_option. AList.delete default_option d)
             (return_dict key_of self input_options) NOT_SUPPORTED_INIT_DEFAULT_OPTIONS
      else return_dict key_of self input_options)"

section \<open>pid\_service/utils.py\<close>

text \<open>
  The enum \<open>PIDProtocol\<close> is declared in \<open>fbpcs.pid.entity.pid_instance\<close>, outside the
  sources at hand; \<open>utils.py\<close> names its member \<open>UNION_PID_MULTIKEY\<close>, and every other
  member is represented by its name.
\<close>

datatype PIDProtocol = UNION_PID_MULTIKEY | PIDProtocol_member string

definition pid_should_use_row_numbers :: "bool \<Rightarrow> PIDProtocol \<Rightarrow> bool" where
  "pid_should_use_row_numbers pid_use_row_numbers pid_protocol =
     (if pid_use_row_numbers \<and> pid_protocol \<noteq> UNION_PID_MULTIKEY then True else False)"

section \<open>infra\_config.py\<close>

subsection \<open>The data of the entity\<close>

datatype PrivateComputationRole = PUBLISHER | PARTNER

datatype PrivateComputationGameType = LIFT | ATTRIBUTION

text \<open>
  The enum \<open>PrivateComputationInstanceStatus\<close> is declared in
  \<open>private_computation_status.py\<close>, outside the sources at hand: a member is
  represented by its name. The classes behind \<open>UnionedPCInstance\<close>, \<open>PCSFeature\<close> and
  \<open>PCEConfig\<close> are outside the sources too, and nothing here looks into their values.
\<close>

datatype PrivateComputationInstanceStatus = PrivateComputationInstanceStatus string

typedecl UnionedPCInstance

typedecl PCSFeature

typedecl PCEConfig

datatype StatusUpdate =
  StatusUpdate (StatusUpdate_status: PrivateComputationInstanceStatus)
    (StatusUpdate_status_update_ts: int)

text \<open>
  An \<open>InfraConfig\<close> object. Each attribute is \<open>None\<close> while the object does not have it
  yet (\<open>hasattr\<close> is false) and \<open>Some\<close> of its value afterwards; \<open>tier\<close> and \<open>pce_config\<close>
  are \<open>Optional\<close> in the source, so their values are options themselves.
  \<open>stage_flow_cls_name\<close> is the private attribute \<open>_stage_flow_cls_name\<close>.
\<close>

record InfraConfig =
  instance_id :: "string option"
  role :: "PrivateComputationRole option"
  status :: "PrivateComputationInstanceStatus option"
  status_update_ts :: "int option"
  instances :: "UnionedPCInstance list option"
  game_type :: "PrivateComputationGameType option"
  num_pid_containers :: "int option"
  num_mpc_containers :: "int option"
  num_files_per_mpc_container :: "int option"
  status_updates :: "StatusUpdate list option"
  tier :: "string option option"
  pcs_features :: "PCSFeature set option"
  pce_config :: "PCEConfig option option"
  stage_flow_cls_name :: "string option"
  retry_counter :: "int option"
  creation_ts :: "int option"
  end_ts :: "int option"
  mpc_compute_concurrency :: "int option"

text \<open>The fields of the dataclass, and an assignment \<open>obj.field = value\<close>.\<close>

datatype field_name =
  F_instance_id | F_role | F_status | F_status_update_ts | F_instances | F_game_type
| F_num_pid_containers | F_num_mpc_containers | F_num_files_per_mpc_container
| F_status_updates | F_tier | F_pcs_features | F_pce_config | F_stage_flow_cls_name
| F_retry_counter | F_creation_ts | F_end_ts | F_mpc_compute_concurrency

datatype assignment =
  Set_instance_id string
| Set_role PrivateComputationRole
| Set_status PrivateComputationInstanceStatus
| Set_status_update_ts int
| Set_instances "UnionedPCInstance list"
| Set_game_type PrivateComputationGameType
| Set_num_pid_containers int
| Set_num_mpc_containers int
| Set_num_files_per_mpc_container int
| Set_status_updates "StatusUpdate list"
| Set_tier "string option"
| Set_pcs_features "PCSFeature set"
| Set_pce_config "PCEConfig option"
| Set_stage_flow_cls_name string
| Set_retry_counter int
| Set_creation_ts int
| Set_end_ts int
| Set_mpc_compute_concurrency int

fun field_of :: "assignment \<Rightarrow> field_name" where
  "field_of (Set_instance_id v) = F_instance_id"
| "field_of (Set_role v) = F_role"
| "field_of (Set_status v) = F_status"
| "field_of (Set_status_update_ts v) = F_status_update_ts"
| "field_of (Set_instances v) = F_instances"
| "field_of (Set_game_type v) = F_game_type"
| "field_of (Set_num_pid_containers v) = F_num_pid_containers"
| "field_of (Set_num_mpc_containers v) = F_num_mpc_containers"
| "field_of (Set_num_files_per_mpc_container v) = F_num_files_per_mpc_container"
| "field_of (Set_status_updates v) = F_status_updates"
| "field_of (Set_tier v) = F_tier"
| "field_of (Set_pcs_features v) = F_pcs_features"
| "field_of (Set_pce_config v) = F_pce_config"
| "field_of (Set_stage_flow_cls_name v) = F_stage_flow_cls_name"
| "field_of (Set_retry_counter v) = F_retry_counter"
| "field_of (Set_creation_ts v) = F_creation_ts"
| "field_of (Set_end_ts v) = F_end_ts"
| "field_of (Set_mpc_compute_concurrency v) = F_mpc_compute_concurrency"

text \<open>\<open>hasattr(obj, field)\<close>.\<close>

fun present :: "field_name \<Rightarrow> InfraConfig \<Rightarrow> bool" where
  "present F_instance_id obj = (instance_id obj \<noteq> None)"
| "present F_role obj = (role obj \<noteq> None)"
| "present F_status obj = (status obj \<noteq> None)"
| "present F_status_update_ts obj = (status_update_ts obj \<noteq> None)"
| "present F_instances obj = (instances obj \<noteq> None)"
| "present F_game_type obj = (game_type obj \<noteq> None)"
| "present F_num_pid_containers obj = (num_pid_containers obj \<noteq> None)"
| "present F_num_mpc_containers obj = (num_mpc_containers obj \<noteq> None)"
| "present F_num_files_per_mpc_container obj = (num_files_per_mpc_container obj \<noteq> None)"
| "present F_status_updates obj = (status_updates obj \<noteq> None)"
| "present F_tier obj = (tier obj \<noteq> None)"
| "present F_pcs_features obj = (pcs_features obj \<noteq> None)"
| "present F_pce_config obj = (pce_config obj \<noteq> None)"
| "present F_stage_flow_cls_name obj = (stage_flow_cls_name obj \<noteq> None)"
| "present F_retry_counter obj = (retry_counter obj \<noteq> None)"
| "present F_creation_ts obj = (creation_ts obj \<noteq> None)"
| "present F_end_ts obj = (end_ts obj \<noteq> None)"
| "present F_mpc_compute_concurrency obj = (mpc_compute_concurrency obj \<noteq> None)"

text \<open>The plain write of an attribute, with no check and no hook.\<close>

fun store :: "assignment \<Rightarrow> InfraConfig \<Rightarrow> InfraConfig" where
  "store (Set_instance_id v) obj = obj\<lparr>instance_id := Some v\<rparr>"
| "store (Set_role v) obj = obj\<lparr>role := Some v\<rparr>"
| "store (Set_status v) obj = obj\<lparr>status := Some v\<rparr>"
| "store (Set_status_update_ts v) obj = obj\<lparr>status_update_ts := Some v\<rparr>"
| "store (Set_instances v) obj = obj\<lparr>instances := Some v\<rparr>"
| "store (Set_game_type v) obj = obj\<lparr>game_type := Some v\<rparr>"
| "store (Set_num_pid_containers v) obj = obj\<lparr>num_pid_containers := Some v\<rparr>"
| "store (Set_num_mpc_containers v) obj = obj\<lparr>num_mpc_containers := Some v\<rparr>"
| "store (Set_num_files_per_mpc_container v) obj = obj\<lparr>num_files_per_mpc_container := Some v\<rparr>"
| "store (Set_status_updates v) obj = obj\<lparr>status_updates := Some v\<rparr>"
| "store (Set_tier v) obj = obj\<lparr>tier := Some v\<rparr>"
| "store (Set_pcs_features v) obj = obj\<lparr>pcs_features := Some v\<rparr>"
| "store (Set_pce_config v) obj = obj\<lparr>pce_config := Some v\<rparr>"
| "store (Set_stage_flow_cls_name v) obj = obj\<lparr>stage_flow_cls_name := Some v\<rparr>"
| "store (Set_retry_counter v) obj = obj\<lparr>retry_counter := Some v\<rparr>"
| "store (Set_creation_ts v) obj = obj\<lparr>creation_ts := Some v\<rparr>"
| "store (Set_end_ts v) obj = obj\<lparr>end_ts := Some v\<rparr>"
| "store (Set_mpc_compute_concurrency v) obj = obj\<lparr>mpc_compute_concurrency := Some v\<rparr>"

subsection \<open>Errors\<close>

text \<open>
  \<open>InvariantViolation\<close> is the \<open>ValueError\<close> that \<open>raise_containers_error\<close> raises, with its
  message; \<open>AttributeError\<close> is what Python raises on reading an attribute the object
  does not have, with the attribute's name; \<open>ImmutableFieldViolation\<close> is the error of
  a write to an immutable field, with the field and the value of the attempt.
\<close>

datatype error =
  InvariantViolation string
| AttributeError string
| ImmutableFieldViolation assignment

subsection \<open>The hook functions of infra\_config.py\<close>

text \<open>\<open>append_status_updates\<close> appends the pair of the current status and its timestamp.\<close>

definition append_status_updates :: "InfraConfig \<Rightarrow> error + InfraConfig" where
  "append_status_updates obj =
     (case status obj of
        None \<Rightarrow> Inl (AttributeError ''status'')
      | Some s \<Rightarrow>
          (case status_update_ts obj of
             None \<Rightarrow> Inl (AttributeError ''status_update_ts'')
           | Some ts \<Rightarrow>
               (case status_updates obj of
                  None \<Rightarrow> Inl (AttributeError ''status_updates'')
                | Some updates \<Rightarrow>
                    Inr (obj\<lparr>status_updates := Some (updates @ [StatusUpdate s ts])\<rparr>))))"

text \<open>
  \<open>post_update_status\<close>: \<open>now\<close> is what \<open>int(datetime.now(tz=timezone.utc).timestamp())\<close>
  reads from the clock at the call, in whole seconds since the epoch.
\<close>

definition post_update_status :: "int \<Rightarrow> InfraConfig \<Rightarrow> error + InfraConfig" where
  "post_update_status now obj = append_status_updates (obj\<lparr>status_update_ts := Some now\<rparr>)"

definition containers_error_message :: "int \<Rightarrow> int \<Rightarrow> string" where
  "containers_error_message pid mpc =
     ''num_pid_containers must be less than or equal to num_mpc_containers. ''
     @ ''Received num_pid_containers = '' @ str_int pid
     @ '' and num_mpc_containers = '' @ str_int mpc"

text \<open>\<open>raise_containers_error\<close> never returns normally.\<close>

definition raise_containers_error :: "InfraConfig \<Rightarrow> error + InfraConfig" where
  "raise_containers_error obj =
     (case num_pid_containers obj of
        None \<Rightarrow> Inl (AttributeError ''num_pid_containers'')
      | Some pid \<Rightarrow>
          (case num_mpc_containers obj of
             None \<Rightarrow> Inl (AttributeError ''num_mpc_containers'')
           | Some mpc \<Rightarrow> Inl (InvariantViolation (containers_error_message pid mpc))))"

definition not_valid_containers :: "InfraConfig \<Rightarrow> bool" where
  "not_valid_containers obj =
     (if present F_num_pid_containers obj \<and> present F_num_mpc_containers obj
      then the (num_pid_containers obj) > the (num_mpc_containers obj)
      else False)"

subsection \<open>Hooks and field metadata\<close>

datatype HookEventType = POST_INIT | POST_UPDATE

text \<open>
  Modelled from the spec: the classes \<open>GenericHook\<close> and \<open>UpdateGenericHook\<close>
  (\<open>fbpcs/common/entity/generic_hook.py\<close>, \<open>update_generic_hook.py\<close>) are not among the
  sources. By section 3 of the spec a hook has its triggers, a condition that is
  "always true" when absent, and an action. A \<open>GenericHook\<close> carries the action
  \<open>hook_function\<close>, the triggers and the condition \<open>hook_condition\<close>; an
  \<open>UpdateGenericHook\<close> carries the triggers and the action \<open>update_function\<close>, which may
  read the clock.
\<close>

datatype hook =
  GenericHook "InfraConfig \<Rightarrow> error + InfraConfig" "HookEventType list" "InfraConfig \<Rightarrow> bool"
| UpdateGenericHook "HookEventType list" "int \<Rightarrow> InfraConfig \<Rightarrow> error + InfraConfig"

text \<open>The two hook objects of \<open>infra_config.py\<close>.\<close>

definition post_status_hook :: hook where
  "post_status_hook = UpdateGenericHook [POST_UPDATE] post_update_status"

definition num_pid_mpc_containers_hook :: hook where
  "num_pid_mpc_containers_hook =
     GenericHook raise_containers_error [POST_INIT, POST_UPDATE] not_valid_containers"

text \<open>Modelled from the spec: the triggers of a hook (section 3).\<close>

fun triggers :: "hook \<Rightarrow> HookEventType list" where
  "triggers (GenericHook hook_function ts hook_condition) = ts"
| "triggers (UpdateGenericHook ts update_function) = ts"

text \<open>Modelled from the spec: the condition of a hook, "always true" when absent (section 3).\<close>

fun condition :: "hook \<Rightarrow> InfraConfig \<Rightarrow> bool" where
  "condition (GenericHook hook_function ts hook_condition) obj = hook_condition obj"
| "condition (UpdateGenericHook ts update_function) obj = True"

text \<open>
  Modelled from the spec: running one hook on the entity, at the clock reading \<open>now\<close>:
  the action runs when the condition holds, and the entity is left as it is otherwise
  (sections 3 and 4.3).
\<close>

fun run_hook :: "hook \<Rightarrow> int \<Rightarrow> InfraConfig \<Rightarrow> error + InfraConfig" where
  "run_hook (GenericHook hook_function ts hook_condition) now obj =
     (if hook_condition obj then hook_function obj else Inr obj)"
| "run_hook (UpdateGenericHook ts update_function) now obj = update_function now obj"

text \<open>
  Modelled from the spec: the hooks of a list that have the trigger \<open>event\<close>, run in the
  order of the list; the first error ends the run (sections 4.1 and 4.3).
\<close>

fun run_hooks :: "HookEventType \<Rightarrow> hook list \<Rightarrow> int \<Rightarrow> InfraConfig \<Rightarrow> error + InfraConfig" where
  "run_hooks event [] now obj = Inr obj"
| "run_hooks event (h # hs) now obj =
     (if event \<in> set (triggers h)
      then (case run_hook h now obj of
              Inl e \<Rightarrow> Inl e
            | Inr obj' \<Rightarrow> run_hooks event hs now obj')
      else run_hooks event hs now obj)"

text \<open>Modelled from the spec: the two mutability classes of a field (section 3).\<close>

datatype mutability = MUTABLE | IMMUTABLE_AFTER_INIT

text \<open>
  The fields that \<open>InfraConfig\<close> declares with \<open>immutable_field(...)\<close>: \<open>instance_id\<close>,
  \<open>game_type\<close>, \<open>tier\<close> and \<open>creation_ts\<close>. Modelled from the spec: \<open>immutable_field\<close>
  (\<open>dataclasses_mutability.py\<close>) is not among the sources; it marks the field
  \<open>IMMUTABLE_AFTER_INIT\<close> (sections 3 and 4.2).
\<close>

fun field_mutability :: "field_name \<Rightarrow> mutability" where
  "field_mutability F_instance_id = IMMUTABLE_AFTER_INIT"
| "field_mutability F_game_type = IMMUTABLE_AFTER_INIT"
| "field_mutability F_tier = IMMUTABLE_AFTER_INIT"
| "field_mutability F_creation_ts = IMMUTABLE_AFTER_INIT"
| "field_mutability f = MUTABLE"

text \<open>
  The hooks that \<open>InfraConfig\<close> binds to its fields through
  \<open>metadata=DataclassHookMixin.get_metadata(...)\<close>.
\<close>

fun field_hooks :: "field_name \<Rightarrow> hook list" where
  "field_hooks F_status = [post_status_hook]"
| "field_hooks F_num_pid_containers = [num_pid_mpc_containers_hook]"
| "field_hooks F_num_mpc_containers = [num_pid_mpc_containers_hook]"
| "field_hooks f = []"

text \<open>The fields in the order of their declaration in the dataclass.\<close>

definition declared_fields :: "field_name list" where
  "declared_fields =
     [F_instance_id, F_role, F_status, F_status_update_ts, F_instances, F_game_type,
      F_num_pid_containers, F_num_mpc_containers, F_num_files_per_mpc_container,
      F_status_updates, F_tier, F_pcs_features, F_pce_config, F_stage_flow_cls_name,
      F_retry_counter, F_creation_ts, F_end_ts, F_mpc_compute_concurrency]"

subsection \<open>Mutability enforcement and the lifecycle dispatcher\<close>

text \<open>
  Modelled from the spec: \<open>DataclassMutabilityMixin\<close> and \<open>DataclassHookMixin\<close>
  (\<open>dataclasses_mutability.py\<close>, \<open>dataclasses_hooks.py\<close>) are not among the sources.
  \<open>assertWritable\<close> of section 4.2: a write to a field marked \<open>IMMUTABLE_AFTER_INIT\<close>
  that already holds a value fails with the error naming the field and the value of
  the attempt; any other write is allowed.
\<close>

definition assertWritable :: "InfraConfig \<Rightarrow> assignment \<Rightarrow> error option" where
  "assertWritable entity a =
     (if field_mutability (field_of a) = IMMUTABLE_AFTER_INIT \<and> present (field_of a) entity
      then Some (ImmutableFieldViolation a)
      else None)"

text \<open>
  Modelled from the spec: the field update interface \<open>set(entity, fieldName, value)\<close> on
  a READY entity (sections 4.3 and 6), at the clock reading \<open>now\<close>: (1) the mutability
  check, (2) the write, (3) the \<open>POST_UPDATE\<close> hooks of the field, in their order,
  against the state after the write. The result is the error, if any, and the entity
  after the call. Where a hook raises, the spec leaves open whether the written value
  stays or is rolled back and recommends apply, validate, roll back, which its scenario
  in section 8 ("entity's countA remains 2") presupposes: the model rolls back, so after
  a failed call the entity is as it was before.
\<close>

definition set_field :: "InfraConfig \<Rightarrow> assignment \<Rightarrow> int \<Rightarrow> error option \<times> InfraConfig" where
  "set_field entity a now =
     (case assertWritable entity a of
        Some e \<Rightarrow> (Some e, entity)
      | None \<Rightarrow>
          (case run_hooks POST_UPDATE (field_hooks (field_of a)) now (store a entity) of
             Inl e \<Rightarrow> (Some e, entity)
           | Inr entity' \<Rightarrow> (None, entity')))"

text \<open>
  Successive calls of \<open>set_field\<close>, each with the clock reading of its moment, up to the
  first that fails.
\<close>

fun set_fields :: "InfraConfig \<Rightarrow> (assignment \<times> int) list \<Rightarrow> error + InfraConfig" where
  "set_fields entity [] = Inr entity"
| "set_fields entity ((a, now) # rest) =
     (case set_field entity a now of
        (Some e, entity') \<Rightarrow> Inl e
      | (None, entity') \<Rightarrow> set_fields entity' rest)"

subsection \<open>Construction\<close>

text \<open>
  The arguments of the constructor \<open>InfraConfig(...)\<close>. An argument with a default in
  the dataclass is \<open>None\<close> when the caller leaves it out; for \<open>tier\<close> and \<open>pce_config\<close>,
  whose default is Python's \<open>None\<close>, leaving out and passing \<open>None\<close> are the same.
\<close>

record InfraConfig_args =
  arg_instance_id :: string
  arg_role :: PrivateComputationRole
  arg_status :: PrivateComputationInstanceStatus
  arg_status_update_ts :: int
  arg_instances :: "UnionedPCInstance list"
  arg_game_type :: PrivateComputationGameType
  arg_num_pid_containers :: int
  arg_num_mpc_containers :: int
  arg_num_files_per_mpc_container :: int
  arg_status_updates :: "StatusUpdate list"
  arg_tier :: "string option"
  arg_pcs_features :: "PCSFeature set option"
  arg_pce_config :: "PCEConfig option"
  arg_stage_flow_cls_name :: "string option"
  arg_retry_counter :: "int option"
  arg_creation_ts :: "int option"
  arg_end_ts :: "int option"
  arg_mpc_compute_concurrency :: "int option"

text \<open>
  The assignments of the generated \<open>__init__\<close>, in the order of the fields, with the
  defaults of the dataclass; the default factory of \<open>creation_ts\<close> reads the clock
  (\<open>int(time.time())\<close>, here \<open>now\<close>).
\<close>

definition initial_assignments :: "InfraConfig_args \<Rightarrow> int \<Rightarrow> assignment list" where
  "initial_assignments args now =
     [Set_instance_id (arg_instance_id args),
      Set_role (arg_role args),
      Set_status (arg_status args),
      Set_status_update_ts (arg_status_update_ts args),
      Set_instances (arg_instances args),
      Set_game_type (arg_game_type args),
      Set_num_pid_containers (arg_num_pid_containers args),
      Set_num_mpc_containers (arg_num_mpc_containers args),
      Set_num_files_per_mpc_container (arg_num_files_per_mpc_container args),
      Set_status_updates (arg_status_updates args),
      Set_tier (arg_tier args),
      Set_pcs_features (case arg_pcs_features args of None \<Rightarrow> {} | Some v \<Rightarrow> v),
      Set_pce_config (arg_pce_config args),
      Set_stage_flow_cls_name
        (case arg_stage_flow_cls_name args of
           None \<Rightarrow> ''PrivateComputationStageFlow'' | Some v \<Rightarrow> v),
      Set_retry_counter (case arg_retry_counter args of None \<Rightarrow> 0 | Some v \<Rightarrow> v),
      Set_creation_ts (case arg_creation_ts args of None \<Rightarrow> now | Some v \<Rightarrow> v),
      Set_end_ts (case arg_end_ts args of None \<Rightarrow> 0 | Some v \<Rightarrow> v),
      Set_mpc_compute_concurrency
        (case arg_mpc_compute_concurrency args of None \<Rightarrow> 1 | Some v \<Rightarrow> v)]"

text \<open>The object before \<open>__init__\<close> has assigned anything: it has no attribute.\<close>

definition uninitialized :: InfraConfig where
  "uninitialized =
     \<lparr> instance_id = None, role = None, status = None, status_update_ts = None,
       instances = None, game_type = None, num_pid_containers = None,
       num_mpc_containers = None, num_files_per_mpc_container = None,
       status_updates = None, tier = None, pcs_features = None, pce_config = None,
       stage_flow_cls_name = None, retry_counter = None, creation_ts = None,
       end_ts = None, mpc_compute_concurrency = None \<rparr>"

text \<open>
  Modelled from the spec: the state \<open>CONSTRUCTING\<close> of section 4.3. Each assignment of
  \<open>__init__\<close> passes the mutability check and is then a plain write: no \<open>POST_UPDATE\<close>
  hook fires. The first error ends the construction.
\<close>

fun constructing :: "InfraConfig \<Rightarrow> assignment list \<Rightarrow> error + InfraConfig" where
  "constructing entity [] = Inr entity"
| "constructing entity (a # rest) =
     (case assertWritable entity a of
        Some e \<Rightarrow> Inl e
      | None \<Rightarrow> constructing (store a entity) rest)"

text \<open>
  Modelled from the spec: the transition from \<open>CONSTRUCTING\<close> to \<open>READY\<close> of section 4.3:
  for every field in declaration order, the hooks of the field with the trigger
  \<open>POST_INIT\<close> whose condition holds. The first error ends the construction.
\<close>

fun post_init :: "field_name list \<Rightarrow> int \<Rightarrow> InfraConfig \<Rightarrow> error + InfraConfig" where
  "post_init [] now entity = Inr entity"
| "post_init (f # fs) now entity =
     (case run_hooks POST_INIT (field_hooks f) now entity of
        Inl e \<Rightarrow> Inl e
      | Inr entity' \<Rightarrow> post_init fs now entity')"

text \<open>
  Modelled from the spec: the construction interface of section 6. It returns the READY
  entity, or fails with the error of the first hook that raised; no entity is returned
  then. The exception of the hook leaves the constructor as it was raised, as section 8
  states it ("fails construction with InvariantViolation").
\<close>

definition construct :: "InfraConfig_args \<Rightarrow> int \<Rightarrow> error + InfraConfig" where
  "construct args now =
     (case constructing uninitialized (initial_assignments args now) of
        Inl e \<Rightarrow> Inl e
      | Inr entity \<Rightarrow> post_init declared_fields now entity)"

text \<open>
  Modelled from the spec: the READY entities of section 4.3: what a construction
  returns, and what a call of \<open>set_field\<close> leaves of a READY entity, whether the call
  succeeded or failed.
\<close>

inductive READY :: "InfraConfig \<Rightarrow> bool" where
  READY_construct: "construct args now = Inr entity \<Longrightarrow> READY entity"
| READY_set_field: "READY entity \<Longrightarrow> set_field entity a now = (r, entity') \<Longrightarrow> READY entity'"

text \<open>The entity once \<open>__init__\<close> has assigned every field from the arguments \<open>args\<close>.\<close>

definition constructed :: "InfraConfig_args \<Rightarrow> int \<Rightarrow> InfraConfig" where
  "constructed args now =
     \<lparr> instance_id = Some (arg_instance_id args),
       role = Some (arg_role args),
       status = Some (arg_status args),
       status_update_ts = Some (arg_status_update_ts args),
       instances = Some (arg_instances args),
       game_type = Some (arg_game_type args),
       num_pid_containers = Some (arg_num_pid_containers args),
       num_mpc_containers = Some (arg_num_mpc_containers args),
       num_files_per_mpc_container = Some (arg_num_files_per_mpc_container args),
       status_updates = Some (arg_status_updates args),
       tier = Some (arg_tier args),
       pcs_features = Some (case arg_pcs_features args of None \<Rightarrow> {} | Some v \<Rightarrow> v),
       pce_config = Some (arg_pce_config args),
       stage_flow_cls_name =
         Some (case arg_stage_flow_cls_name args of
                 None \<Rightarrow> ''PrivateComputationStageFlow'' | Some v \<Rightarrow> v),
       retry_counter = Some (case arg_retry_counter args of None \<Rightarrow> 0 | Some v \<Rightarrow> v),
       creation_ts = Some (case arg_creation_ts args of None \<Rightarrow> now | Some v \<Rightarrow> v),
       end_ts = Some (case arg_end_ts args of None \<Rightarrow> 0 | Some v \<Rightarrow> v),
       mpc_compute_concurrency =
         Some (case arg_mpc_compute_concurrency args of None \<Rightarrow> 1 | Some v \<Rightarrow> v) \<rparr>"

text \<open>An entity that has every attribute of the dataclass.\<close>

definition initialized :: "InfraConfig \<Rightarrow> bool" where
  "initialized entity = list_all (\<lambda>f. present f entity) declared_fields"

text \<open>
  Constructor arguments for the scenarios: the two container counts and the status
  history are given, the other required fields are fixed and the fields with defaults
  are left out.
\<close>

definition scenario_args :: "int \<Rightarrow> int \<Rightarrow> StatusUpdate list \<Rightarrow> InfraConfig_args" where
  "scenario_args pid mpc updates =
     \<lparr> arg_instance_id = ''instance_1'',
       arg_role = PUBLISHER,
       arg_status = PrivateComputationInstanceStatus ''CREATED'',
       arg_status_update_ts = 0,
       arg_instances = [],
       arg_game_type = LIFT,
       arg_num_pid_containers = pid,
       arg_num_mpc_containers = mpc,
       arg_num_files_per_mpc_container = 1,
       arg_status_updates = updates,
       arg_tier = None,
       arg_pcs_features = None,
       arg_pce_config = None,
       arg_stage_flow_cls_name = None,
       arg_retry_counter = None,
       arg_creation_ts = None,
       arg_end_ts = None,
       arg_mpc_compute_concurrency = None \<rparr>"

text \<open>
  A sequence of writes of the status field, each with the clock reading of its
  moment: the calls of \<open>set_field\<close> it stands for, and the history entries it leaves.
\<close>

definition status_writes ::
  "(PrivateComputationInstanceStatus \<times> int) list \<Rightarrow> (assignment \<times> int) list" where
  "status_writes writes = map (\<lambda>(s, now). (Set_status s, now)) writes"

definition status_entries ::
  "(PrivateComputationInstanceStatus \<times> int) list \<Rightarrow> StatusUpdate list" where
  "status_entries writes = map (\<lambda>(s, now). StatusUpdate s now) writes"

section \<open>Properties of get\_command\_list\<close>

lemma foldl_snoc_map: "foldl (\<lambda>cl x. cl @ [f x]) acc xs = acc @ map f xs"
  by (induction xs arbitrary: acc) simp_all

text \<open>The tokens one option appends, whatever has been collected before.\<close>

lemma add_option_append: "add_option cl kv = cl @ add_option [] kv"
proof (cases kv)
  case (Pair key0 v)
  show ?thesis
  proof (cases v)
    case (Atom a)
    with Pair show ?thesis by (cases a) simp_all
  next
    case (PyList vs)
    with Pair show ?thesis by (simp add: foldl_snoc_map)
  next
    case (PyDict d)
    with Pair show ?thesis by simp
  qed
qed

lemma foldl_add_option: "foldl add_option cl kwargs = cl @ concat (map (add_option []) kwargs)"
proof (induction kwargs arbitrary: cl)
  case Nil
  show ?case by simp
next
  case (Cons kv kwargs)
  have "foldl add_option cl (kv # kwargs) = foldl add_option (add_option cl kv) kwargs"
    by simp
  also have "\<dots> = add_option cl kv @ concat (map (add_option []) kwargs)"
    by (rule Cons.IH)
  also have "\<dots> = cl @ add_option [] kv @ concat (map (add_option []) kwargs)"
    using add_option_append [of cl kv] by simp
  finally show ?case by simp
qed

lemma py_split_Nil: "py_split [] = []"
  by (simp add: py_split_def)

text \<open>
  The command list around one option: the tokens of the options before it, then its
  own, then those of the options after it and the positional arguments.
\<close>

lemma get_command_list_split:
  "get_command_list command args (pre @ kv # post) =
     get_command_list command [] pre @ add_option [] kv @ get_command_list [] args post"
  unfolding get_command_list_def foldl_add_option py_split_Nil by simp

lemma get_command_list_append:
  "get_command_list command args (pre @ post) =
     get_command_list command [] pre @ get_command_list [] args post"
  unfolding get_command_list_def foldl_add_option py_split_Nil by simp

lemma replace_underscore_length: "length (replace_underscore key) = length key"
  by (simp add: replace_underscore_def)

lemma replace_underscore_nth:
  "i < length key \<Longrightarrow>
     replace_underscore key ! i = (if key ! i = CHR ''_'' then CHR ''-'' else key ! i)"
  by (simp add: replace_underscore_def)

lemma replace_underscore_no_underscore: "CHR ''_'' \<notin> set (replace_underscore key)"
  by (auto simp: replace_underscore_def)

text \<open>
  C6. An option whose value is a dictionary and whose name, once hyphenated, contains
  \<open>backend-config\<close> puts one token per entry of the dictionary into the command list,
  in the dictionary's order; each token is the flag \<open>-backend-config\<close> followed by the
  entry as \<open>key=value\<close>.
\<close>

theorem get_command_list_backend_config:
  assumes "py_in ''backend-config'' (replace_underscore key)"
  shows "get_command_list command args (pre @ (key, PyDict d) # post) =
           get_command_list command [] pre
           @ map (\<lambda>(k, v). ''-backend-config '' @ k @ ''='' @ py_format v) d
           @ get_command_list [] args post"
  using assms by (simp add: get_command_list_split)

theorem get_command_list_backend_config_witness:
  "py_in ''backend-config'' (replace_underscore ''backend_config'')
   \<and> get_command_list ''terraform init'' [''-no-color'']
         ([(''input'', Atom (PyBool False))]
          @ (''backend_config'',
               PyDict [(''bucket'', PyStr ''tf-state''), (''region'', PyStr ''us-west-2'')])
          # [(''reconfigure'', Atom (PyBool True))])
       = [''terraform'', ''init'', ''-input=false'',
          ''-backend-config bucket=tf-state'', ''-backend-config region=us-west-2'',
          ''-reconfigure=true'', ''-no-color'']"
proof -
  have h: "py_in ''backend-config'' (replace_underscore ''backend_config'')"
    by (simp add: replace_underscore_def)
  have pre: "get_command_list ''terraform init'' [] [(''input'', Atom (PyBool False))] =
               [''terraform'', ''init'', ''-input=false'']"
    by (simp add: get_command_list_def py_split_def py_isspace_def replace_underscore_def)
  have post: "get_command_list [] [''-no-color''] [(''reconfigure'', Atom (PyBool True))] =
                [''-reconfigure=true'', ''-no-color'']"
    by (simp add: get_command_list_def py_split_def replace_underscore_def)
  show ?thesis
    using h get_command_list_backend_config [OF h, of "''terraform init''" "[''-no-color'']"
        "[(''input'', Atom (PyBool False))]"
        "[(''bucket'', PyStr ''tf-state''), (''region'', PyStr ''us-west-2'')]"
        "[(''reconfigure'', Atom (PyBool True))]"]
    by (simp add: pre post)
qed

text \<open>
  C7. The name in an emitted token is the option's name with every underscore replaced
  by a hyphen (same length, hyphen where an underscore was, every other character
  kept, no underscore left). A boolean option gives the single token \<open>-name=true\<close> or
  \<open>-name=false\<close>. A list option gives one token \<open>-name=element\<close> per element, in the
  order of the list. Any other value but \<open>None\<close> gives the single token \<open>-name=value\<close>.
\<close>

theorem get_command_list_tokens:
  "length (replace_underscore key) = length key
   \<and> (\<forall>i < length key.
         replace_underscore key ! i = (if key ! i = CHR ''_'' then CHR ''-'' else key ! i))
   \<and> CHR ''_'' \<notin> set (replace_underscore key)
   \<and> get_command_list command args (pre @ (key, Atom (PyBool b)) # post) =
         get_command_list command [] pre
         @ [''-'' @ replace_underscore key @ ''='' @ (if b then ''true'' else ''false'')]
         @ get_command_list [] args post
   \<and> get_command_list command args (pre @ (key, PyList vs) # post) =
         get_command_list command [] pre
         @ map (\<lambda>inner_value. ''-'' @ replace_underscore key @ ''='' @ py_format inner_value) vs
         @ get_command_list [] args post
   \<and> get_command_list command args (pre @ (key, Atom (PyInt n)) # post) =
         get_command_list command [] pre
         @ [''-'' @ replace_underscore key @ ''='' @ str_int n]
         @ get_command_list [] args post
   \<and> get_command_list command args (pre @ (key, Atom (PyStr s)) # post) =
         get_command_list command [] pre
         @ [''-'' @ replace_underscore key @ ''='' @ s]
         @ get_command_list [] args post"
proof -
  have "\<forall>i < length key.
          replace_underscore key ! i = (if key ! i = CHR ''_'' then CHR ''-'' else key ! i)"
    using replace_underscore_nth by blast
  moreover have "add_option [] (key, PyList vs) =
      map (\<lambda>inner_value. ''-'' @ replace_underscore key @ ''='' @ py_format inner_value) vs"
    by (simp add: foldl_snoc_map)
  ultimately show ?thesis
    by (simp add: get_command_list_split replace_underscore_length
        replace_underscore_no_underscore)
qed

theorem get_command_list_tokens_witness:
  "replace_underscore ''var_file'' = ''var-file''
   \<and> get_command_list ''terraform  apply'' [''plan.out'']
         ([(''auto_approve'', Atom (PyBool True))]
          @ (''input'', Atom (PyBool False)) # [(''lock_timeout'', Atom (PyStr ''5s''))])
       = [''terraform'', ''apply'', ''-auto-approve=true'', ''-input=false'',
          ''-lock-timeout=5s'', ''plan.out'']
   \<and> get_command_list ''terraform  apply'' [''plan.out'']
         ([(''auto_approve'', Atom (PyBool True))]
          @ (''resource_target'', PyList [PyStr ''aws_s3.a'', PyInt 12, PyBool True])
          # [(''lock_timeout'', Atom (PyStr ''5s''))])
       = [''terraform'', ''apply'', ''-auto-approve=true'', ''-resource-target=aws_s3.a'',
          ''-resource-target=12'', ''-resource-target=True'', ''-lock-timeout=5s'',
          ''plan.out'']
   \<and> get_command_list ''terraform  apply'' [''plan.out'']
         ([(''auto_approve'', Atom (PyBool True))]
          @ (''parallelism'', Atom (PyInt 10)) # [(''lock_timeout'', Atom (PyStr ''5s''))])
       = [''terraform'', ''apply'', ''-auto-approve=true'', ''-parallelism=10'',
          ''-lock-timeout=5s'', ''plan.out'']"
proof -
  have pre: "get_command_list ''terraform  apply'' [] [(''auto_approve'', Atom (PyBool True))] =
               [''terraform'', ''apply'', ''-auto-approve=true'']"
    by (simp add: get_command_list_def py_split_def py_isspace_def replace_underscore_def)
  have post: "get_command_list [] [''plan.out''] [(''lock_timeout'', Atom (PyStr ''5s''))] =
                [''-lock-timeout=5s'', ''plan.out'']"
    by (simp add: get_command_list_def py_split_def replace_underscore_def)
  have r: "replace_underscore ''var_file'' = ''var-file''"
          "replace_underscore ''input'' = ''input''"
          "replace_underscore ''resource_target'' = ''resource-target''"
          "replace_underscore ''parallelism'' = ''parallelism''"
    by (simp_all add: replace_underscore_def)
  have n: "str_int 12 = ''12''" "str_int 10 = ''10''"
    by (simp_all add: str_int_def str_nat.simps)
  show ?thesis
    using get_command_list_tokens [of "''input''" "''terraform  apply''" "[''plan.out'']"
        "[(''auto_approve'', Atom (PyBool True))]" False
        "[(''lock_timeout'', Atom (PyStr ''5s''))]"]
      get_command_list_tokens [of "''resource_target''" "''terraform  apply''" "[''plan.out'']"
        "[(''auto_approve'', Atom (PyBool True))]" _
        "[(''lock_timeout'', Atom (PyStr ''5s''))]" "[PyStr ''aws_s3.a'', PyInt 12, PyBool True]"]
      get_command_list_tokens [of "''parallelism''" "''terraform  apply''" "[''plan.out'']"
        "[(''auto_approve'', Atom (PyBool True))]" _
        "[(''lock_timeout'', Atom (PyStr ''5s''))]" _ 10]
    by (simp add: pre post r n)
qed

text \<open>
  C9. An option whose value is \<open>None\<close>, and an option whose value is a dictionary while
  its hyphenated name does not contain \<open>backend-config\<close>, leave the command list as if
  the option had not been passed.
\<close>

theorem get_command_list_dropped:
  "get_command_list command args (pre @ (key, Atom PyNone) # post) =
     get_command_list command args (pre @ post)
   \<and> (\<not> py_in ''backend-config'' (replace_underscore key) \<longrightarrow>
        get_command_list command args (pre @ (key, PyDict d) # post) =
          get_command_list command args (pre @ post))"
  by (simp add: get_command_list_split get_command_list_append [of command args pre post])

theorem get_command_list_dropped_witness:
  "\<not> py_in ''backend-config'' (replace_underscore ''var'')
   \<and> get_command_list ''terraform plan'' []
         ([(''state'', Atom PyNone)] @ (''var'', PyDict [(''region'', PyStr ''us-west-2'')])
          # [(''parallelism'', Atom (PyInt 10))])
       = [''terraform'', ''plan'', ''-parallelism=10'']
   \<and> get_command_list ''terraform plan'' []
         ([] @ (''state'', Atom PyNone) # [(''parallelism'', Atom (PyInt 10))])
       = [''terraform'', ''plan'', ''-parallelism=10'']"
proof -
  have h: "\<not> py_in ''backend-config'' (replace_underscore ''var'')"
    by (simp add: replace_underscore_def)
  have n: "str_int 10 = ''10''"
    by (simp add: str_int_def str_nat.simps)
  have rest: "get_command_list ''terraform plan'' []
                ([(''state'', Atom PyNone)] @ [(''parallelism'', Atom (PyInt 10))]) =
              [''terraform'', ''plan'', ''-parallelism=10'']"
    by (simp add: get_command_list_def py_split_def py_isspace_def replace_underscore_def n)
  show ?thesis
    using h rest
      get_command_list_dropped [of "''terraform plan''" "[]" "[(''state'', Atom PyNone)]"
        "''var''" "[(''parallelism'', Atom (PyInt 10))]" "[(''region'', PyStr ''us-west-2'')]"]
      get_command_list_dropped [of "''terraform plan''" "[]" "[]"
        "''state''" "[(''parallelism'', Atom (PyInt 10))]"]
    by simp
qed

section \<open>Properties of get\_default\_options\<close>

lemma foldl_update_keys:
  "fst ` set (foldl (\<lambda>d (k, v). AList.update k v d) acc items) = fst ` set acc \<union> fst ` set items"
proof (induction items arbitrary: acc)
  case Nil
  show ?case by simp
next
  case (Cons kv items)
  obtain k v where kv: "kv = (k, v)" by (cases kv)
  show ?case
    unfolding kv by (auto simp: Cons.IH dom_update)
qed

lemma dict_of_items_keys: "fst ` set (dict_of_items items) = fst ` set items"
  by (simp add: dict_of_items_def foldl_update_keys)

lemma foldl_update_distinct:
  "distinct (map fst acc) \<Longrightarrow>
     distinct (map fst (foldl (\<lambda>d (k, v). AList.update k v d) acc items))"
proof (induction items arbitrary: acc)
  case Nil
  then show ?case by simp
next
  case (Cons kv items)
  obtain k v where kv: "kv = (k, v)" by (cases kv)
  from Cons.prems have "distinct (map fst (AList.update k v acc))"
    by (rule distinct_update)
  then show ?case
    unfolding kv using Cons.IH by simp
qed

lemma return_dict_distinct: "distinct (map fst (return_dict key_of self input_options))"
  unfolding return_dict_def dict_of_items_def by (rule foldl_update_distinct) simp

lemma foldl_delete_map_of:
  "map_of (foldl (\<lambda>d k. AList.delete k d) acc ks) = map_of acc |` (- set ks)"
proof (induction ks arbitrary: acc)
  case Nil
  show ?case by simp
next
  case (Cons k ks)
  have "map_of (foldl (\<lambda>d k. AList.delete k d) acc (k # ks)) =
          map_of (AList.delete k acc) |` (- set ks)"
    by (simp add: Cons.IH)
  also have "\<dots> = map_of acc |` (- set (k # ks))"
    by (auto simp: delete_conv' restrict_map_def fun_eq_iff)
  finally show ?case .
qed

lemma foldl_delete_keys:
  "fst ` set (foldl (\<lambda>d k. AList.delete k d) acc ks) = fst ` set acc - set ks"
proof (induction ks arbitrary: acc)
  case Nil
  show ?case by simp
next
  case (Cons k ks)
  have "fst ` set (AList.delete k acc) = fst ` set acc - {k}"
    by (auto simp: AList.delete_eq image_iff)
  then show ?case
    by (auto simp: Cons.IH)
qed

lemma return_dict_keys:
  "fst ` set (return_dict key_of self input_options) =
     {key_of Cli_state, key_of Cli_target, key_of Cli_var, key_of Cli_var_file,
      key_of Cli_parallelism, key_of Cli_terraform_input} \<union> fst ` set input_options"
  by (simp add: return_dict_def dict_of_items_keys)

text \<open>
  C8. For the subcommand \<open>init\<close> the result is the dictionary of the defaults and the
  input options without the keys of the denylist: none of them is a key of the
  result, and every other key keeps its value. For every other subcommand nothing is
  removed: the result is that dictionary itself, and the six default options
  state, target, var, var\_file, parallelism and input are among its keys.
\<close>

theorem get_default_options_denylist:
  "(terraform_command = ''init'' \<longrightarrow>
      map_of (get_default_options key_of deny self terraform_command input_options) =
        map_of (return_dict key_of self input_options) |` (- set deny)
      \<and> fst ` set (get_default_options key_of deny self terraform_command input_options) =
          fst ` set (return_dict key_of self input_options) - set deny)
   \<and> (terraform_command \<noteq> ''init'' \<longrightarrow>
      get_default_options key_of deny self terraform_command input_options =
        return_dict key_of self input_options
      \<and> {key_of Cli_state, key_of Cli_target, key_of Cli_var, key_of Cli_var_file,
          key_of Cli_parallelism, key_of Cli_terraform_input}
          \<subseteq> fst ` set (get_default_options key_of deny self terraform_command input_options))"
  by (simp add: get_default_options_def foldl_delete_map_of foldl_delete_keys return_dict_keys)

theorem get_default_options_denylist_witness:
  "get_default_options
       (case_TerraformCliOptions ''state'' ''target'' ''var'' ''var_file'' ''parallelism'' ''input'')
       [''state'', ''parallelism'']
       (TerraformDeploymentUtils_init (Some ''tf.state'') None None None None) ''init''
       [(''reconfigure'', Atom (PyBool True))]
     = [(''target'', PyList []), (''var'', PyDict []), (''var_file'', Atom PyNone),
        (''input'', Atom (PyBool False)), (''reconfigure'', Atom (PyBool True))]
   \<and> fst ` set (get_default_options
       (case_TerraformCliOptions ''state'' ''target'' ''var'' ''var_file'' ''parallelism'' ''input'')
       [''state'', ''parallelism'']
       (TerraformDeploymentUtils_init (Some ''tf.state'') None None None None) ''init''
       [(''reconfigure'', Atom (PyBool True))])
     = {''target'', ''var'', ''var_file'', ''input'', ''reconfigure''}
   \<and> get_default_options
       (case_TerraformCliOptions ''state'' ''target'' ''var'' ''var_file'' ''parallelism'' ''input'')
       [''state'', ''parallelism'']
       (TerraformDeploymentUtils_init (Some ''tf.state'') None None None None) ''plan''
       [(''reconfigure'', Atom (PyBool True))]
     = [(''state'', Atom (PyStr ''tf.state'')), (''target'', PyList []), (''var'', PyDict []),
        (''var_file'', Atom PyNone), (''parallelism'', Atom (PyInt 10)),
        (''input'', Atom (PyBool False)), (''reconfigure'', Atom (PyBool True))]
   \<and> {''state'', ''target'', ''var'', ''var_file'', ''parallelism'', ''input''}
       \<subseteq> fst ` set (get_default_options
       (case_TerraformCliOptions ''state'' ''target'' ''var'' ''var_file'' ''parallelism'' ''input'')
       [''state'', ''parallelism'']
       (TerraformDeploymentUtils_init (Some ''tf.state'') None None None None) ''plan''
       [(''reconfigure'', Atom (PyBool True))])"
proof -
  let ?K = "case_TerraformCliOptions ''state'' ''target'' ''var'' ''var_file'' ''parallelism'' ''input''"
  let ?self = "TerraformDeploymentUtils_init (Some ''tf.state'') None None None None"
  let ?inp = "[(''reconfigure'', Atom (PyBool True))]"
  have full: "return_dict ?K ?self ?inp =
      [(''state'', Atom (PyStr ''tf.state'')), (''target'', PyList []), (''var'', PyDict []),
       (''var_file'', Atom PyNone), (''parallelism'', Atom (PyInt 10)),
       (''input'', Atom (PyBool False)), (''reconfigure'', Atom (PyBool True))]"
    by (simp add: return_dict_def dict_of_items_def TerraformDeploymentUtils_init_def
        TERRAFORM_DEFAULT_PARALLELISM_def py_optional_str_def)
  have init: "get_default_options ?K [''state'', ''parallelism''] ?self ''init'' ?inp =
      [(''target'', PyList []), (''var'', PyDict []), (''var_file'', Atom PyNone),
       (''input'', Atom (PyBool False)), (''reconfigure'', Atom (PyBool True))]"
    by (simp add: get_default_options_def full AList.delete_eq)
  have a: "''init'' = ''init''" and b: "''plan'' \<noteq> ''init''"
    by simp_all
  show ?thesis
    using a b init
      get_default_options_denylist [of "''init''" ?K "[''state'', ''parallelism'']" ?self ?inp]
      get_default_options_denylist [of "''plan''" ?K "[''state'', ''parallelism'']" ?self ?inp]
    by (simp add: full)
qed

section \<open>Properties of pid\_should\_use\_row\_numbers\<close>

text \<open>
  C10. \<open>pid_should_use_row_numbers\<close> is true exactly when the flag is true and the
  protocol is not \<open>UNION_PID_MULTIKEY\<close>; under \<open>UNION_PID_MULTIKEY\<close> it is false whatever
  the flag.
\<close>

theorem pid_should_use_row_numbers_iff:
  "pid_should_use_row_numbers pid_use_row_numbers pid_protocol =
     (pid_use_row_numbers \<and> pid_protocol \<noteq> UNION_PID_MULTIKEY)
   \<and> pid_should_use_row_numbers pid_use_row_numbers UNION_PID_MULTIKEY = False"
  by (simp add: pid_should_use_row_numbers_def)

section \<open>Properties of the entity\<close>

subsection \<open>Construction\<close>

lemma constructing_initial_assignments:
  "constructing uninitialized (initial_assignments args now) = Inr (constructed args now)"
  by (simp add: initial_assignments_def uninitialized_def assertWritable_def constructed_def)

lemma raise_containers_error_not_Inr: "raise_containers_error obj \<noteq> Inr obj'"
  by (simp add: raise_containers_error_def split: option.splits)

lemma post_init_declared_fields:
  "post_init declared_fields now entity =
     (if not_valid_containers entity then raise_containers_error entity else Inr entity)"
  by (simp add: declared_fields_def post_status_hook_def num_pid_mpc_containers_hook_def
      raise_containers_error_not_Inr split: sum.splits)

lemma not_valid_containers_constructed:
  "not_valid_containers (constructed args now) =
     (arg_num_pid_containers args > arg_num_mpc_containers args)"
  by (simp add: not_valid_containers_def constructed_def)

lemma raise_containers_error_constructed:
  "raise_containers_error (constructed args now) =
     Inl (InvariantViolation
            (containers_error_message (arg_num_pid_containers args) (arg_num_mpc_containers args)))"
  by (simp add: raise_containers_error_def constructed_def)

lemma construct_eq:
  "construct args now =
     (if arg_num_pid_containers args > arg_num_mpc_containers args
      then Inl (InvariantViolation
                  (containers_error_message (arg_num_pid_containers args)
                     (arg_num_mpc_containers args)))
      else Inr (constructed args now))"
  by (simp add: construct_def constructing_initial_assignments post_init_declared_fields
      not_valid_containers_constructed raise_containers_error_constructed)

lemma initialized_constructed: "initialized (constructed args now)"
  by (simp add: initialized_def declared_fields_def constructed_def)

subsection \<open>Updates\<close>

lemma run_hooks_post_update:
  "run_hooks POST_UPDATE (field_hooks (field_of a)) now obj =
     (if field_of a = F_status then post_update_status now obj
      else if field_of a = F_num_pid_containers \<or> field_of a = F_num_mpc_containers
      then (if not_valid_containers obj then raise_containers_error obj else Inr obj)
      else Inr obj)"
  by (cases a)
    (simp_all add: post_status_hook_def num_pid_mpc_containers_hook_def split: sum.splits)

lemma initialized_store: "initialized entity \<Longrightarrow> initialized (store a entity)"
  by (cases a) (simp_all add: initialized_def declared_fields_def)

lemma initialized_status_updates:
  "initialized entity \<Longrightarrow> \<exists>h. status_updates entity = Some h"
  by (simp add: initialized_def declared_fields_def)

lemma post_update_status_eq:
  "status obj = Some s \<Longrightarrow> status_updates obj = Some h \<Longrightarrow>
     post_update_status now obj =
       Inr (obj\<lparr>status_update_ts := Some now, status_updates := Some (h @ [StatusUpdate s now])\<rparr>)"
  by (simp add: post_update_status_def append_status_updates_def)

lemma set_field_status:
  "status_updates entity = Some h \<Longrightarrow>
     set_field entity (Set_status s) now =
       (None, entity\<lparr>status := Some s, status_update_ts := Some now,
                      status_updates := Some (h @ [StatusUpdate s now])\<rparr>)"
  by (simp add: set_field_def assertWritable_def post_status_hook_def post_update_status_eq)

lemma not_valid_containers_store_other:
  "field_of a \<noteq> F_num_pid_containers \<Longrightarrow> field_of a \<noteq> F_num_mpc_containers \<Longrightarrow>
     not_valid_containers (store a entity) = not_valid_containers entity"
  by (cases a) (simp_all add: not_valid_containers_def)

text \<open>
  What a READY entity keeps through every call: it has all its attributes, and the
  condition of the container hook is false on it.
\<close>

lemma set_field_preserves:
  assumes "initialized entity" and "\<not> not_valid_containers entity"
    and "set_field entity a now = (r, entity')"
  shows "initialized entity' \<and> \<not> not_valid_containers entity'"
proof (cases "assertWritable entity a")
  case (Some e)
  with assms show ?thesis by (simp add: set_field_def)
next
  case None
  show ?thesis
  proof (cases "field_of a = F_status")
    case True
    then obtain s where a: "a = Set_status s" by (cases a) simp_all
    obtain h where h: "status_updates entity = Some h"
      using assms(1) initialized_status_updates by blast
    have "entity' = entity\<lparr>status := Some s, status_update_ts := Some now,
                              status_updates := Some (h @ [StatusUpdate s now])\<rparr>"
      using assms(3) set_field_status [OF h, of s now] a by simp
    with assms(1,2) show ?thesis
      by (simp add: initialized_def declared_fields_def not_valid_containers_def)
  next
    case False
    show ?thesis
    proof (cases "field_of a = F_num_pid_containers \<or> field_of a = F_num_mpc_containers")
      case True
      show ?thesis
      proof (cases "not_valid_containers (store a entity)")
        case True
        have "\<exists>e. raise_containers_error (store a entity) = Inl e"
          using raise_containers_error_not_Inr [of "store a entity"]
          by (cases "raise_containers_error (store a entity)") auto
        then have "entity' = entity"
          using assms(3) None \<open>field_of a \<noteq> F_status\<close>
            \<open>field_of a = F_num_pid_containers \<or> field_of a = F_num_mpc_containers\<close> True
          by (auto simp: set_field_def run_hooks_post_update)
        with assms(1,2) show ?thesis by simp
      next
        case nv: False
        have "entity' = store a entity"
          using assms(3) None \<open>field_of a \<noteq> F_status\<close> True nv
          by (auto simp: set_field_def run_hooks_post_update)
        with assms(1) nv show ?thesis by (simp add: initialized_store)
      qed
    next
      case other: False
      have "entity' = store a entity"
        using assms(3) None \<open>field_of a \<noteq> F_status\<close> other
        by (auto simp: set_field_def run_hooks_post_update)
      with assms(1,2) other show ?thesis
        by (simp add: initialized_store not_valid_containers_store_other)
    qed
  qed
qed

lemma READY_invariant: "READY entity \<Longrightarrow> initialized entity \<and> \<not> not_valid_containers entity"
proof (induction rule: READY.induct)
  case (READY_construct args now entity)
  then have "entity = constructed args now"
    and "\<not> arg_num_pid_containers args > arg_num_mpc_containers args"
    by (auto simp: construct_eq split: if_splits)
  then show ?case
    by (simp add: initialized_constructed not_valid_containers_constructed)
next
  case (READY_set_field entity a now r entity')
  then show ?case
    using set_field_preserves by blast
qed

subsection \<open>The claims about construction and the container counts\<close>

lemma str_int_digits:
  "str_int 2 = ''2''" "str_int 3 = ''3''" "str_int 5 = ''5''" "str_int 6 = ''6''"
  by (simp_all add: str_int_def str_nat.simps)

text \<open>
  C1. A construction whose \<open>num_pid_containers\<close> is greater than its
  \<open>num_mpc_containers\<close> fails with the \<open>InvariantViolation\<close> whose message names both
  values. A construction whose \<open>num_pid_containers\<close> is at most its
  \<open>num_mpc_containers\<close> succeeds: it returns the entity that holds the arguments, which
  is READY, has every attribute, and on which the condition of the container hook is
  false.
\<close>

theorem construct_containers:
  "(arg_num_pid_containers args > arg_num_mpc_containers args \<longrightarrow>
      construct args now =
        Inl (InvariantViolation
               (''num_pid_containers must be less than or equal to num_mpc_containers. ''
                @ ''Received num_pid_containers = '' @ str_int (arg_num_pid_containers args)
                @ '' and num_mpc_containers = '' @ str_int (arg_num_mpc_containers args))))
   \<and> (arg_num_pid_containers args \<le> arg_num_mpc_containers args \<longrightarrow>
      construct args now = Inr (constructed args now)
      \<and> READY (constructed args now)
      \<and> initialized (constructed args now)
      \<and> num_pid_containers (constructed args now) = Some (arg_num_pid_containers args)
      \<and> num_mpc_containers (constructed args now) = Some (arg_num_mpc_containers args)
      \<and> \<not> not_valid_containers (constructed args now))"
proof (intro conjI impI)
  assume "arg_num_pid_containers args > arg_num_mpc_containers args"
  then show "construct args now =
        Inl (InvariantViolation
               (''num_pid_containers must be less than or equal to num_mpc_containers. ''
                @ ''Received num_pid_containers = '' @ str_int (arg_num_pid_containers args)
                @ '' and num_mpc_containers = '' @ str_int (arg_num_mpc_containers args)))"
    by (simp add: construct_eq containers_error_message_def)
next
  assume le: "arg_num_pid_containers args \<le> arg_num_mpc_containers args"
  then show c: "construct args now = Inr (constructed args now)"
    by (simp add: construct_eq)
  then show "READY (constructed args now)"
    by (rule READY_construct)
  show "initialized (constructed args now)"
    by (rule initialized_constructed)
  show "num_pid_containers (constructed args now) = Some (arg_num_pid_containers args)"
    and "num_mpc_containers (constructed args now) = Some (arg_num_mpc_containers args)"
    by (simp_all add: constructed_def)
  from le show "\<not> not_valid_containers (constructed args now)"
    by (simp add: not_valid_containers_constructed)
qed

theorem construct_containers_witness:
  "arg_num_pid_containers (scenario_args 3 2 []) > arg_num_mpc_containers (scenario_args 3 2 [])
   \<and> construct (scenario_args 3 2 []) 1700000000 =
       Inl (InvariantViolation
              (''num_pid_containers must be less than or equal to num_mpc_containers. ''
               @ ''Received num_pid_containers = 3 and num_mpc_containers = 2''))
   \<and> arg_num_pid_containers (scenario_args 2 5 []) \<le> arg_num_mpc_containers (scenario_args 2 5 [])
   \<and> construct (scenario_args 2 5 []) 1700000000 = Inr (constructed (scenario_args 2 5 []) 1700000000)
   \<and> READY (constructed (scenario_args 2 5 []) 1700000000)
   \<and> num_pid_containers (constructed (scenario_args 2 5 []) 1700000000) = Some 2
   \<and> num_mpc_containers (constructed (scenario_args 2 5 []) 1700000000) = Some 5
   \<and> creation_ts (constructed (scenario_args 2 5 []) 1700000000) = Some 1700000000"
proof -
  have a: "arg_num_pid_containers (scenario_args 3 2 []) > arg_num_mpc_containers (scenario_args 3 2 [])"
    and b: "arg_num_pid_containers (scenario_args 2 5 []) \<le> arg_num_mpc_containers (scenario_args 2 5 [])"
    by (simp_all add: scenario_args_def)
  have v: "arg_num_pid_containers (scenario_args 3 2 []) = 3"
    "arg_num_mpc_containers (scenario_args 3 2 []) = 2"
    "arg_num_pid_containers (scenario_args 2 5 []) = 2"
    "arg_num_mpc_containers (scenario_args 2 5 []) = 5"
    by (simp_all add: scenario_args_def)
  have ts: "creation_ts (constructed (scenario_args 2 5 []) 1700000000) = Some 1700000000"
    by (simp add: constructed_def scenario_args_def)
  show ?thesis
    using a b ts
      construct_containers [of "scenario_args 3 2 []" 1700000000]
      construct_containers [of "scenario_args 2 5 []" 1700000000]
    by (simp add: v str_int_digits)
qed

text \<open>
  C3. An entity constructed with \<open>num_pid_containers = 2\<close> and \<open>num_mpc_containers = 5\<close>
  is returned and READY. Setting its \<open>num_pid_containers\<close> to 6 fails with the
  \<open>InvariantViolation\<close> whose message reports 6 and 5, and the entity after the failed
  call is the entity before it: its \<open>num_pid_containers\<close> is 2.
\<close>

theorem update_rejected_scenario:
  assumes "arg_num_pid_containers args = 2" and "arg_num_mpc_containers args = 5"
  shows "construct args now = Inr (constructed args now)
    \<and> READY (constructed args now)
    \<and> fst (set_field (constructed args now) (Set_num_pid_containers 6) now') =
        Some (InvariantViolation
                (''num_pid_containers must be less than or equal to num_mpc_containers. ''
                 @ ''Received num_pid_containers = 6 and num_mpc_containers = 5''))
    \<and> snd (set_field (constructed args now) (Set_num_pid_containers 6) now') =
        constructed args now
    \<and> num_pid_containers (snd (set_field (constructed args now) (Set_num_pid_containers 6) now'))
        = Some 2"
proof -
  have c: "construct args now = Inr (constructed args now)"
    using assms by (simp add: construct_eq)
  then have r: "READY (constructed args now)"
    by (rule READY_construct)
  let ?w = "store (Set_num_pid_containers 6) (constructed args now)"
  have nv: "not_valid_containers ?w"
    using assms by (simp add: not_valid_containers_def constructed_def)
  have err: "raise_containers_error ?w = Inl (InvariantViolation (containers_error_message 6 5))"
    using assms by (simp add: raise_containers_error_def constructed_def)
  have hooks: "run_hooks POST_UPDATE (field_hooks (field_of (Set_num_pid_containers 6))) now' ?w =
      Inl (InvariantViolation (containers_error_message 6 5))"
    using nv err run_hooks_post_update [of "Set_num_pid_containers 6" now' ?w] by simp
  have w: "assertWritable (constructed args now) (Set_num_pid_containers 6) = None"
    by (simp add: assertWritable_def)
  have s: "set_field (constructed args now) (Set_num_pid_containers 6) now' =
      (Some (InvariantViolation (containers_error_message 6 5)), constructed args now)"
    unfolding set_field_def w hooks by simp
  have two: "num_pid_containers (constructed args now) = Some 2"
    using assms by (simp add: constructed_def)
  show ?thesis
    using c r two by (simp add: s containers_error_message_def str_int_digits)
qed

theorem update_rejected_scenario_witness:
  "arg_num_pid_containers (scenario_args 2 5 []) = 2
   \<and> arg_num_mpc_containers (scenario_args 2 5 []) = 5
   \<and> construct (scenario_args 2 5 []) 100 = Inr (constructed (scenario_args 2 5 []) 100)
   \<and> fst (set_field (constructed (scenario_args 2 5 []) 100) (Set_num_pid_containers 6) 200) =
        Some (InvariantViolation
                (''num_pid_containers must be less than or equal to num_mpc_containers. ''
                 @ ''Received num_pid_containers = 6 and num_mpc_containers = 5''))
   \<and> num_pid_containers
        (snd (set_field (constructed (scenario_args 2 5 []) 100) (Set_num_pid_containers 6) 200))
        = Some 2"
proof -
  have a: "arg_num_pid_containers (scenario_args 2 5 []) = 2"
    and b: "arg_num_mpc_containers (scenario_args 2 5 []) = 5"
    by (simp_all add: scenario_args_def)
  show ?thesis
    using a b update_rejected_scenario [OF a b, of 100 200] by blast
qed

text \<open>
  C5. The condition of the container hook is \<open>not_valid_containers\<close>. It holds exactly
  when the entity has both \<open>num_pid_containers\<close> and \<open>num_mpc_containers\<close> and the first
  is greater than the second; the hook then raises the \<open>InvariantViolation\<close> that names
  both values. Where one of the two attributes is missing the condition is false, and
  where the condition is false the hook leaves the entity as it is.
\<close>

theorem not_valid_containers_iff:
  "not_valid_containers obj =
     (\<exists>pid mpc. num_pid_containers obj = Some pid \<and> num_mpc_containers obj = Some mpc
                \<and> pid > mpc)
   \<and> condition num_pid_mpc_containers_hook obj = not_valid_containers obj
   \<and> (num_pid_containers obj = None \<or> num_mpc_containers obj = None \<longrightarrow>
        \<not> not_valid_containers obj \<and> run_hook num_pid_mpc_containers_hook now obj = Inr obj)
   \<and> (\<not> not_valid_containers obj \<longrightarrow> run_hook num_pid_mpc_containers_hook now obj = Inr obj)
   \<and> (not_valid_containers obj \<longrightarrow>
        run_hook num_pid_mpc_containers_hook now obj =
          Inl (InvariantViolation
                 (containers_error_message (the (num_pid_containers obj))
                    (the (num_mpc_containers obj)))))"
proof -
  have iff: "not_valid_containers obj =
     (\<exists>pid mpc. num_pid_containers obj = Some pid \<and> num_mpc_containers obj = Some mpc
                \<and> pid > mpc)"
    by (auto simp: not_valid_containers_def)
  have run: "run_hook num_pid_mpc_containers_hook now obj =
      (if not_valid_containers obj then raise_containers_error obj else Inr obj)"
    by (simp add: num_pid_mpc_containers_hook_def)
  have raise: "not_valid_containers obj \<Longrightarrow>
      raise_containers_error obj =
        Inl (InvariantViolation
               (containers_error_message (the (num_pid_containers obj))
                  (the (num_mpc_containers obj))))"
    unfolding iff by (auto simp: raise_containers_error_def)
  have missing: "num_pid_containers obj = None \<or> num_mpc_containers obj = None \<Longrightarrow>
      \<not> not_valid_containers obj"
    unfolding iff by auto
  show ?thesis
    using iff run raise missing by (simp add: num_pid_mpc_containers_hook_def)
qed

theorem not_valid_containers_iff_witness:
  "num_mpc_containers (uninitialized\<lparr>num_pid_containers := Some 3\<rparr>) = None
   \<and> \<not> not_valid_containers (uninitialized\<lparr>num_pid_containers := Some 3\<rparr>)
   \<and> run_hook num_pid_mpc_containers_hook 0 (uninitialized\<lparr>num_pid_containers := Some 3\<rparr>) =
       Inr (uninitialized\<lparr>num_pid_containers := Some 3\<rparr>)
   \<and> not_valid_containers
       (uninitialized\<lparr>num_pid_containers := Some 3, num_mpc_containers := Some 2\<rparr>)
   \<and> run_hook num_pid_mpc_containers_hook 0
       (uninitialized\<lparr>num_pid_containers := Some 3, num_mpc_containers := Some 2\<rparr>) =
       Inl (InvariantViolation
              (''num_pid_containers must be less than or equal to num_mpc_containers. ''
               @ ''Received num_pid_containers = 3 and num_mpc_containers = 2''))
   \<and> \<not> not_valid_containers
       (uninitialized\<lparr>num_pid_containers := Some 2, num_mpc_containers := Some 5\<rparr>)
   \<and> run_hook num_pid_mpc_containers_hook 0
       (uninitialized\<lparr>num_pid_containers := Some 2, num_mpc_containers := Some 5\<rparr>) =
       Inr (uninitialized\<lparr>num_pid_containers := Some 2, num_mpc_containers := Some 5\<rparr>)"
proof -
  let ?a = "uninitialized\<lparr>num_pid_containers := Some 3\<rparr>"
  let ?b = "uninitialized\<lparr>num_pid_containers := Some 3, num_mpc_containers := Some 2\<rparr>"
  let ?c = "uninitialized\<lparr>num_pid_containers := Some 2, num_mpc_containers := Some 5\<rparr>"
  have a: "num_mpc_containers ?a = None"
    by (simp add: uninitialized_def)
  have b: "num_pid_containers ?b = Some 3" "num_mpc_containers ?b = Some 2"
    and c: "num_pid_containers ?c = Some 2" "num_mpc_containers ?c = Some 5"
    by simp_all
  show ?thesis
    using a not_valid_containers_iff [of ?a 0] not_valid_containers_iff [of ?b 0]
      not_valid_containers_iff [of ?c 0]
    by (simp add: b c containers_error_message_def str_int_digits)
qed

subsection \<open>Immutable fields\<close>

lemma READY_present: "READY entity \<Longrightarrow> present f entity"
proof -
  assume "READY entity"
  then have "initialized entity"
    using READY_invariant by blast
  then show ?thesis
    by (cases f) (simp_all add: initialized_def declared_fields_def)
qed

lemma set_field_immutable_present:
  "field_mutability (field_of a) = IMMUTABLE_AFTER_INIT \<Longrightarrow> present (field_of a) entity \<Longrightarrow>
     set_field entity a now = (Some (ImmutableFieldViolation a), entity)"
  by (simp add: set_field_def assertWritable_def)

lemma set_field_immutable_absent:
  "field_mutability (field_of a) = IMMUTABLE_AFTER_INIT \<Longrightarrow> \<not> present (field_of a) entity \<Longrightarrow>
     set_field entity a now = (None, store a entity)"
  by (cases a) (simp_all add: set_field_def assertWritable_def)

lemma present_store: "present (field_of a) (store a entity)"
  by (cases a) simp_all

text \<open>
  C4. The immutable fields are \<open>instance_id\<close>, \<open>game_type\<close>, \<open>tier\<close> and \<open>creation_ts\<close>.
  An assignment to one of them on an entity that already holds a value for it, and so
  every such assignment on a READY entity, fails with the \<open>ImmutableFieldViolation\<close> of
  that assignment and leaves the entity as it was. The first assignment, on an entity
  that has no value for the field, succeeds and stores the value; in particular every
  assignment of the constructor succeeds, and the four fields then hold the arguments,
  \<open>creation_ts\<close> the clock reading of its default factory when the argument is left out.
\<close>

theorem immutable_field_writes:
  "(field_mutability f = IMMUTABLE_AFTER_INIT) =
     (f \<in> {F_instance_id, F_game_type, F_tier, F_creation_ts})
   \<and> (field_mutability (field_of a) = IMMUTABLE_AFTER_INIT \<longrightarrow>
        (present (field_of a) entity \<longrightarrow>
           set_field entity a now = (Some (ImmutableFieldViolation a), entity))
        \<and> (READY entity \<longrightarrow>
           set_field entity a now = (Some (ImmutableFieldViolation a), entity))
        \<and> (\<not> present (field_of a) entity \<longrightarrow>
           set_field entity a now = (None, store a entity)
           \<and> present (field_of a) (store a entity)))
   \<and> constructing uninitialized (initial_assignments args now) = Inr (constructed args now)
   \<and> instance_id (constructed args now) = Some (arg_instance_id args)
   \<and> game_type (constructed args now) = Some (arg_game_type args)
   \<and> tier (constructed args now) = Some (arg_tier args)
   \<and> creation_ts (constructed args now) =
       Some (case arg_creation_ts args of None \<Rightarrow> now | Some v \<Rightarrow> v)"
proof -
  have "(field_mutability f = IMMUTABLE_AFTER_INIT) =
     (f \<in> {F_instance_id, F_game_type, F_tier, F_creation_ts})"
    by (cases f) simp_all
  moreover have "instance_id (constructed args now) = Some (arg_instance_id args)"
    "game_type (constructed args now) = Some (arg_game_type args)"
    "tier (constructed args now) = Some (arg_tier args)"
    "creation_ts (constructed args now) =
       Some (case arg_creation_ts args of None \<Rightarrow> now | Some v \<Rightarrow> v)"
    by (simp_all add: constructed_def)
  ultimately show ?thesis
    using set_field_immutable_present [of a entity now]
      set_field_immutable_absent [of a entity now]
      READY_present [of entity "field_of a"] present_store [of a entity]
      constructing_initial_assignments [of args now]
    by blast
qed

theorem immutable_field_writes_witness:
  "field_mutability (field_of (Set_instance_id ''instance_2'')) = IMMUTABLE_AFTER_INIT
   \<and> READY (constructed (scenario_args 2 5 []) 100)
   \<and> present (field_of (Set_instance_id ''instance_2'')) (constructed (scenario_args 2 5 []) 100)
   \<and> set_field (constructed (scenario_args 2 5 []) 100) (Set_instance_id ''instance_2'') 200 =
       (Some (ImmutableFieldViolation (Set_instance_id ''instance_2'')),
        constructed (scenario_args 2 5 []) 100)
   \<and> instance_id (constructed (scenario_args 2 5 []) 100) = Some ''instance_1''
   \<and> creation_ts (constructed (scenario_args 2 5 []) 100) = Some 100
   \<and> field_mutability (field_of (Set_creation_ts 7)) = IMMUTABLE_AFTER_INIT
   \<and> \<not> present (field_of (Set_creation_ts 7)) uninitialized
   \<and> set_field uninitialized (Set_creation_ts 7) 200 = (None, uninitialized\<lparr>creation_ts := Some 7\<rparr>)"
proof -
  let ?e = "constructed (scenario_args 2 5 []) 100"
  have r: "READY ?e"
    by (rule READY_construct [of "scenario_args 2 5 []" 100])
      (simp add: construct_eq scenario_args_def)
  have p: "present (field_of (Set_instance_id ''instance_2'')) ?e"
    by (simp add: constructed_def)
  have q: "\<not> present (field_of (Set_creation_ts 7)) uninitialized"
    by (simp add: uninitialized_def)
  have m: "field_mutability (field_of (Set_instance_id ''instance_2'')) = IMMUTABLE_AFTER_INIT"
    "field_mutability (field_of (Set_creation_ts 7)) = IMMUTABLE_AFTER_INIT"
    by simp_all
  have v: "instance_id ?e = Some ''instance_1''" "creation_ts ?e = Some 100"
    by (simp_all add: constructed_def scenario_args_def)
  have s: "store (Set_creation_ts 7) uninitialized = uninitialized\<lparr>creation_ts := Some 7\<rparr>"
    by simp
  show ?thesis
    using r p q m v
      immutable_field_writes [of F_instance_id "Set_instance_id ''instance_2''" ?e 200
        "scenario_args 2 5 []"]
      immutable_field_writes [of F_creation_ts "Set_creation_ts 7" uninitialized 200
        "scenario_args 2 5 []"]
    unfolding s by blast
qed

subsection \<open>The status history\<close>

lemma set_fields_status_writes:
  "status_updates entity = Some h \<Longrightarrow>
     \<exists>entity'. set_fields entity (status_writes writes) = Inr entity'
       \<and> status_updates entity' = Some (h @ status_entries writes)
       \<and> (writes \<noteq> [] \<longrightarrow> status entity' = Some (fst (last writes))
                         \<and> status_update_ts entity' = Some (snd (last writes)))"
proof (induction writes arbitrary: entity h)
  case Nil
  then show ?case
    by (simp add: status_writes_def status_entries_def)
next
  case (Cons w writes)
  obtain s now where w: "w = (s, now)" by (cases w)
  let ?e1 = "entity\<lparr>status := Some s, status_update_ts := Some now,
                      status_updates := Some (h @ [StatusUpdate s now])\<rparr>"
  have step: "set_field entity (Set_status s) now = (None, ?e1)"
    using Cons.prems by (rule set_field_status)
  have h1: "status_updates ?e1 = Some (h @ [StatusUpdate s now])"
    by simp
  from Cons.IH [OF h1] obtain entity' where
    run: "set_fields ?e1 (status_writes writes) = Inr entity'"
    and hist: "status_updates entity' = Some ((h @ [StatusUpdate s now]) @ status_entries writes)"
    and last: "writes \<noteq> [] \<longrightarrow> status entity' = Some (fst (last writes))
                         \<and> status_update_ts entity' = Some (snd (last writes))"
    by blast
  have "set_fields entity (status_writes (w # writes)) = Inr entity'"
    using step run by (simp add: w status_writes_def)
  moreover have "status_updates entity' = Some (h @ status_entries (w # writes))"
    using hist by (simp add: w status_entries_def)
  moreover have "status entity' = Some (fst (last (w # writes)))
      \<and> status_update_ts entity' = Some (snd (last (w # writes)))"
  proof (cases "writes = []")
    case True
    then have "entity' = ?e1"
      using run by (simp add: status_writes_def)
    then show ?thesis
      using True by (simp add: w)
  next
    case False
    then show ?thesis
      using last by simp
  qed
  ultimately show ?case by blast
qed

lemma status_entries_timestamps:
  "map StatusUpdate_status_update_ts (status_entries writes) = map snd writes"
  by (induction writes) (auto simp: status_entries_def)

lemma status_entries_statuses:
  "map StatusUpdate_status (status_entries writes) = map fst writes"
  by (induction writes) (auto simp: status_entries_def)

text \<open>
  C2, as amended. A READY entity holds a history \<open>h\<close> in \<open>status_updates\<close>: the list its
  constructor was given, with what earlier updates appended. Every sequence of N writes
  of the status field succeeds, and afterwards \<open>status_updates\<close> is \<open>h\<close> followed by
  exactly N entries in the order of the writes, the i-th being the pair of the i-th
  written status and the clock reading at that write; \<open>status\<close> and \<open>status_update_ts\<close>
  hold the status and the clock reading of the last write. So the history has N
  entries when \<open>h\<close> is empty, and the timestamps of the appended entries are the clock
  readings: they are non-decreasing when the clock readings are.
\<close>

theorem status_updates_history:
  assumes "READY entity"
  shows "\<exists>h entity'.
      status_updates entity = Some h
      \<and> set_fields entity (status_writes writes) = Inr entity'
      \<and> status_updates entity' = Some (h @ status_entries writes)
      \<and> length (h @ status_entries writes) = length h + length writes
      \<and> map StatusUpdate_status (status_entries writes) = map fst writes
      \<and> map StatusUpdate_status_update_ts (status_entries writes) = map snd writes
      \<and> (writes \<noteq> [] \<longrightarrow> status entity' = Some (fst (last writes))
                        \<and> status_update_ts entity' = Some (snd (last writes)))
      \<and> (sorted (map snd writes) \<longrightarrow>
           sorted (map StatusUpdate_status_update_ts (status_entries writes)))"
proof -
  from assms have "initialized entity"
    using READY_invariant by blast
  then obtain h where h: "status_updates entity = Some h"
    using initialized_status_updates by blast
  from set_fields_status_writes [OF h, of writes] obtain entity' where
    "set_fields entity (status_writes writes) = Inr entity'"
    "status_updates entity' = Some (h @ status_entries writes)"
    "writes \<noteq> [] \<longrightarrow> status entity' = Some (fst (last writes))
                        \<and> status_update_ts entity' = Some (snd (last writes))"
    by blast
  moreover have "length (h @ status_entries writes) = length h + length writes"
    by (simp add: status_entries_def)
  ultimately show ?thesis
    using h status_entries_timestamps [of writes] status_entries_statuses [of writes]
    by auto
qed

theorem status_updates_history_witness:
  "READY (constructed (scenario_args 2 5 []) 100)
   \<and> status_updates (constructed (scenario_args 2 5 []) 100) = Some []
   \<and> set_fields (constructed (scenario_args 2 5 []) 100)
        (status_writes [(PrivateComputationInstanceStatus ''PID_SHARD_STARTED'', 110),
                        (PrivateComputationInstanceStatus ''PID_SHARD_COMPLETED'', 120)])
      = Inr ((constructed (scenario_args 2 5 []) 100)
               \<lparr>status := Some (PrivateComputationInstanceStatus ''PID_SHARD_COMPLETED''),
                 status_update_ts := Some 120,
                 status_updates :=
                   Some [StatusUpdate (PrivateComputationInstanceStatus ''PID_SHARD_STARTED'') 110,
                         StatusUpdate (PrivateComputationInstanceStatus ''PID_SHARD_COMPLETED'') 120]\<rparr>)
   \<and> sorted (map snd [(PrivateComputationInstanceStatus ''PID_SHARD_STARTED'', 110::int),
                       (PrivateComputationInstanceStatus ''PID_SHARD_COMPLETED'', 120)])
   \<and> sorted (map StatusUpdate_status_update_ts
        (status_entries [(PrivateComputationInstanceStatus ''PID_SHARD_STARTED'', 110),
                         (PrivateComputationInstanceStatus ''PID_SHARD_COMPLETED'', 120)]))"
proof -
  let ?e = "constructed (scenario_args 2 5 []) 100"
  let ?ws = "[(PrivateComputationInstanceStatus ''PID_SHARD_STARTED'', 110::int),
              (PrivateComputationInstanceStatus ''PID_SHARD_COMPLETED'', 120)]"
  have r: "READY ?e"
    by (rule READY_construct [of "scenario_args 2 5 []" 100])
      (simp add: construct_eq scenario_args_def)
  have h0: "status_updates ?e = Some []"
    by (simp add: constructed_def scenario_args_def)
  have srt: "sorted (map snd ?ws)"
    by simp
  from status_updates_history [OF r, of ?ws] obtain h entity' where
    h: "status_updates ?e = Some h"
    and run: "set_fields ?e (status_writes ?ws) = Inr entity'"
    and hist: "status_updates entity' = Some (h @ status_entries ?ws)"
    and last: "status entity' = Some (fst (last ?ws)) \<and> status_update_ts entity' = Some (snd (last ?ws))"
    and mono: "sorted (map snd ?ws) \<longrightarrow>
                 sorted (map StatusUpdate_status_update_ts (status_entries ?ws))"
    by auto
  have run_value: "set_fields ?e (status_writes ?ws) =
      Inr (?e\<lparr>status := Some (PrivateComputationInstanceStatus ''PID_SHARD_COMPLETED''),
               status_update_ts := Some 120,
               status_updates :=
                 Some [StatusUpdate (PrivateComputationInstanceStatus ''PID_SHARD_STARTED'') 110,
                       StatusUpdate (PrivateComputationInstanceStatus ''PID_SHARD_COMPLETED'') 120]\<rparr>)"
    by (simp add: status_writes_def set_field_status [where h = "[]"] h0
        set_field_status [where h = "[StatusUpdate (PrivateComputationInstanceStatus ''PID_SHARD_STARTED'') 110]"])
  show ?thesis
    using r h0 srt mono run_value by simp
qed

text \<open>
  C2 as it is stated fails: the constructor takes \<open>status_updates\<close> as an argument, so a
  READY entity can hold a history that no write of its status produced. Here the
  history given at construction has two entries, with timestamps 100 and 90; one write
  of the status at the clock reading 50 leaves three entries, not one, and their
  timestamps decrease.
\<close>

theorem status_updates_count_counterexample:
  "READY (constructed (scenario_args 2 5
            [StatusUpdate (PrivateComputationInstanceStatus ''CREATED'') 100,
             StatusUpdate (PrivateComputationInstanceStatus ''PID_SHARD_STARTED'') 90]) 100)
   \<and> set_fields (constructed (scenario_args 2 5
            [StatusUpdate (PrivateComputationInstanceStatus ''CREATED'') 100,
             StatusUpdate (PrivateComputationInstanceStatus ''PID_SHARD_STARTED'') 90]) 100)
        (status_writes [(PrivateComputationInstanceStatus ''PID_SHARD_COMPLETED'', 50)])
      = Inr ((constructed (scenario_args 2 5
            [StatusUpdate (PrivateComputationInstanceStatus ''CREATED'') 100,
             StatusUpdate (PrivateComputationInstanceStatus ''PID_SHARD_STARTED'') 90]) 100)
               \<lparr>status := Some (PrivateComputationInstanceStatus ''PID_SHARD_COMPLETED''),
                 status_update_ts := Some 50,
                 status_updates :=
                   Some [StatusUpdate (PrivateComputationInstanceStatus ''CREATED'') 100,
                         StatusUpdate (PrivateComputationInstanceStatus ''PID_SHARD_STARTED'') 90,
                         StatusUpdate (PrivateComputationInstanceStatus ''PID_SHARD_COMPLETED'') 50]\<rparr>)
   \<and> length [StatusUpdate (PrivateComputationInstanceStatus ''CREATED'') 100,
             StatusUpdate (PrivateComputationInstanceStatus ''PID_SHARD_STARTED'') 90,
             StatusUpdate (PrivateComputationInstanceStatus ''PID_SHARD_COMPLETED'') 50]
       \<noteq> length [(PrivateComputationInstanceStatus ''PID_SHARD_COMPLETED'', 50::int)]
   \<and> \<not> sorted (map StatusUpdate_status_update_ts
            [StatusUpdate (PrivateComputationInstanceStatus ''CREATED'') 100,
             StatusUpdate (PrivateComputationInstanceStatus ''PID_SHARD_STARTED'') 90,
             StatusUpdate (PrivateComputationInstanceStatus ''PID_SHARD_COMPLETED'') 50])"
proof -
  let ?h = "[StatusUpdate (PrivateComputationInstanceStatus ''CREATED'') 100,
             StatusUpdate (PrivateComputationInstanceStatus ''PID_SHARD_STARTED'') 90]"
  let ?e = "constructed (scenario_args 2 5 ?h) 100"
  have r: "READY ?e"
    by (rule READY_construct [of "scenario_args 2 5 ?h" 100])
      (simp add: construct_eq scenario_args_def)
  have h0: "status_updates ?e = Some ?h"
    by (simp add: constructed_def scenario_args_def)
  have run_value: "set_fields ?e (status_writes [(PrivateComputationInstanceStatus ''PID_SHARD_COMPLETED'', 50)]) =
      Inr (?e\<lparr>status := Some (PrivateComputationInstanceStatus ''PID_SHARD_COMPLETED''),
               status_update_ts := Some 50,
               status_updates :=
                 Some (?h @ [StatusUpdate (PrivateComputationInstanceStatus ''PID_SHARD_COMPLETED'') 50])\<rparr>)"
    by (simp add: status_writes_def set_field_status [OF h0])
  show ?thesis
    using r run_value by simp
qed

end
